theory Spec2Isabelle
  imports Main
begin

section \<open>Data model\<close>

text \<open>
  A Python string is a sequence of Unicode code points, and \<^verbatim>\<open>for c in text\<close> walks it
  one code point at a time. A character is therefore its code point, and a string a list
  of code points; \<open>str\<close> turns an ASCII literal into such a list.
\<close>

type_synonym pychar = nat
type_synonym pystr = "pychar list"

definition str :: "string \<Rightarrow> pystr" where
  "str s = map of_char s"

text \<open>
  The two lambda glyphs: the one the source file contains in \<^verbatim>\<open>scan\<close> and
  \<^verbatim>\<open>textify\<close> (U+1D6CC, mathematical bold small lamda), and the Greek small letter
  (U+03BB), which the source does not contain.
\<close>

definition bold_lamda :: pychar where
  "bold_lamda = 0x1D6CC"

definition greek_lamda :: pychar where
  "greek_lamda = 0x3BB"

text \<open>The enum \<^verbatim>\<open>Token\<close>; a token is the pair (kind, payload).\<close>

datatype Token = LAMBDA | DOT | LEFT_PAREN | RIGHT_PAREN | ID

type_synonym token = "Token \<times> pystr"

text \<open>
  The tuples tagged with the enum \<^verbatim>\<open>Term\<close>. \<open>VAR n\<close> is \<^verbatim>\<open>(Term.VAR, n)\<close>;
  \<open>ABS p b\<close> is \<^verbatim>\<open>(Term.ABS, (Term.VAR, p), b)\<close>, whose second component is always the
  tuple built by \<^verbatim>\<open>var()\<close>; \<open>APP f a\<close> is \<^verbatim>\<open>(Term.APP, f, a)\<close>. \<open>PyNone\<close> is Python's
  \<^verbatim>\<open>None\<close>, which \<^verbatim>\<open>term()\<close> returns when its loop ends without a \<^verbatim>\<open>return\<close> and which
  can therefore sit in a subterm position.
\<close>

datatype ast = VAR pystr | ABS pystr ast | APP ast ast | PyNone

datatype py_error = IndexError | TypeError

section \<open>Scanner\<close>

text \<open>One iteration of the loop of \<^verbatim>\<open>scan\<close>: the tokens appended for one character.\<close>

definition scan_char :: "pychar \<Rightarrow> token list" where
  "scan_char c =
     (if c = of_char CHR '' '' then []
      else if c = bold_lamda \<or> c = of_char CHR 0x5C then [(LAMBDA, [])]
      else if c = of_char CHR ''.'' then [(DOT, [])]
      else if c = of_char CHR ''('' then [(LEFT_PAREN, [])]
      else if c = of_char CHR '')'' then [(RIGHT_PAREN, [])]
      else [(ID, [c])])"

fun scan :: "pystr \<Rightarrow> token list" where
  "scan [] = []"
| "scan (c # text) = scan_char c @ scan text"

section \<open>Parser\<close>

text \<open>
  The cursor \<^verbatim>\<open>i\<close> that the closures of \<^verbatim>\<open>parse\<close> share is passed in and returned.
  A call has three outcomes: it never returns (\<open>None\<close>), it raises
  (\<open>Some (Inl e)\<close>), or it returns a value and leaves the cursor at \<open>j\<close>
  (\<open>Some (Inr (v, j))\<close>). Reading \<^verbatim>\<open>tokens[i]\<close> past the end raises IndexError; the
  cursor is never negative.
\<close>

type_synonym 'a outcome = "(py_error + 'a \<times> nat) option"

text \<open>
  \<^verbatim>\<open>var()\<close> reads the payload of the token under the cursor, whatever its kind, and
  advances. It returns the payload \<open>n\<close> of the tuple \<^verbatim>\<open>(Term.VAR, n)\<close>.
\<close>

definition var :: "token list \<Rightarrow> nat \<Rightarrow> py_error + pystr \<times> nat" where
  "var tokens i =
     (if i < length tokens then Inr (snd (tokens ! i), i + 1) else Inl IndexError)"

text \<open>
  \<^verbatim>\<open>abs()\<close> and \<^verbatim>\<open>term()\<close> call each other; \<open>parser\<close> is the two of them, the
  second argument saying which one runs. An iteration of the \<^verbatim>\<open>while\<close> loop of
  \<^verbatim>\<open>term()\<close> in which no \<^verbatim>\<open>case\<close> matches goes round again with the cursor where
  it was.
\<close>

datatype closure = Abs | Term

partial_function (option) parser :: "token list \<Rightarrow> closure \<Rightarrow> nat \<Rightarrow> ast outcome" where
  "parser tokens f i =
     (case f of
        Abs \<Rightarrow>
          (case var tokens (i + 1) of
             Inl e \<Rightarrow> Some (Inl e)
           | Inr (v, j) \<Rightarrow>
               Option.bind (parser tokens Term (j + 1))
                 (\<lambda>r. case r of
                    Inl e \<Rightarrow> Some (Inl e)
                  | Inr (body, k) \<Rightarrow> Some (Inr (ABS v body, k))))
      | Term \<Rightarrow>
          (if i < length tokens then
             (case fst (tokens ! i) of
                ID \<Rightarrow>
                  (case var tokens i of
                     Inl e \<Rightarrow> Some (Inl e)
                   | Inr (v, j) \<Rightarrow> Some (Inr (VAR v, j)))
              | LEFT_PAREN \<Rightarrow>
                  (if i + 1 < length tokens then
                     (if fst (tokens ! (i + 1)) = LAMBDA then
                        Option.bind (parser tokens Abs (i + 1))
                          (\<lambda>r. case r of
                             Inl e \<Rightarrow> Some (Inl e)
                           | Inr (res, j) \<Rightarrow> Some (Inr (res, j + 1)))
                      else
                        Option.bind (parser tokens Term (i + 1))
                          (\<lambda>r1. case r1 of
                             Inl e \<Rightarrow> Some (Inl e)
                           | Inr (res1, j) \<Rightarrow>
                               Option.bind (parser tokens Term j)
                                 (\<lambda>r2. case r2 of
                                    Inl e \<Rightarrow> Some (Inl e)
                                  | Inr (res2, k) \<Rightarrow> Some (Inr (APP res1 res2, k + 1)))))
                   else Some (Inl IndexError))
              | _ \<Rightarrow> parser tokens Term i)
           else Some (Inr (PyNone, i))))"

declare parser.simps [code]

definition abs_p :: "token list \<Rightarrow> nat \<Rightarrow> ast outcome" where
  "abs_p tokens i = parser tokens Abs i"

definition term_p :: "token list \<Rightarrow> nat \<Rightarrow> ast outcome" where
  "term_p tokens i = parser tokens Term i"

text \<open>\<^verbatim>\<open>parse\<close> starts the cursor at 0 and returns what \<^verbatim>\<open>term()\<close> returns.\<close>

definition parse :: "token list \<Rightarrow> (py_error + ast) option" where
  "parse tokens = map_option (map_sum id fst) (term_p tokens 0)"

section \<open>Evaluator\<close>

text \<open>
  The environment is a list of dicts. Every key the code stores is a tuple
  \<^verbatim>\<open>(Term.VAR, n)\<close>; a frame is the map from the names \<open>n\<close> of those keys to the values.
\<close>

type_synonym frame = "pystr \<rightharpoonup> ast"
type_synonym env = "frame list"

text \<open>
  The loop of \<^verbatim>\<open>find\<close> over the frames it is given, and \<^verbatim>\<open>find\<close> itself, which gives
  it \<^verbatim>\<open>reversed(env)\<close>. \<open>Some res\<close> is the result \<^verbatim>\<open>(True, res)\<close>, \<open>None\<close> is
  \<^verbatim>\<open>(False, '')\<close>.
\<close>

fun find_loop :: "frame list \<Rightarrow> pystr \<Rightarrow> ast option" where
  "find_loop [] v = None"
| "find_loop (d # ds) v =
     (case d v of Some res \<Rightarrow> Some res | None \<Rightarrow> find_loop ds v)"

definition find_env :: "env \<Rightarrow> pystr \<Rightarrow> ast option" where
  "find_env env v = find_loop (rev env) v"

text \<open>
  \<open>interp\<close> is \<^verbatim>\<open>interpret\<close>. Subscripting \<^verbatim>\<open>None\<close> raises TypeError: at \<^verbatim>\<open>ast[0]\<close> when the node
  is \<^verbatim>\<open>None\<close>, at \<^verbatim>\<open>ast[1][0]\<close> when the function position of an application is.
\<close>

fun interp :: "ast \<Rightarrow> env \<Rightarrow> py_error + ast" where
  "interp (VAR n) env =
     (case find_env env n of Some res \<Rightarrow> Inr res | None \<Rightarrow> Inr (VAR n))"
| "interp (ABS p body) env =
     (case interp body (env @ [Map.empty(p \<mapsto> VAR p)]) of
        Inl e \<Rightarrow> Inl e
      | Inr body' \<Rightarrow> Inr (ABS p body'))"
| "interp (APP (ABS p body) arg) env =
     (case interp arg env of
        Inl e \<Rightarrow> Inl e
      | Inr v \<Rightarrow> interp body (env @ [Map.empty(p \<mapsto> v)]))"
| "interp (APP PyNone arg) env = Inl TypeError"
| "interp (APP (VAR n) arg) env = Inr (APP (VAR n) arg)"
| "interp (APP (APP f x) arg) env = Inr (APP (APP f x) arg)"
| "interp PyNone env = Inl TypeError"

text \<open>
  The same function run on a call stack of \<open>d\<close> frames: every nested call of
  \<^verbatim>\<open>interpret\<close> takes one, and \<open>None\<close> says that the stack was too small.
\<close>

fun interp_lim :: "nat \<Rightarrow> ast \<Rightarrow> env \<Rightarrow> (py_error + ast) option" where
  "interp_lim 0 t env = None"
| "interp_lim (Suc d) (VAR n) env =
     Some (case find_env env n of Some res \<Rightarrow> Inr res | None \<Rightarrow> Inr (VAR n))"
| "interp_lim (Suc d) (ABS p body) env =
     (case interp_lim d body (env @ [Map.empty(p \<mapsto> VAR p)]) of
        None \<Rightarrow> None
      | Some (Inl e) \<Rightarrow> Some (Inl e)
      | Some (Inr body') \<Rightarrow> Some (Inr (ABS p body')))"
| "interp_lim (Suc d) (APP (ABS p body) arg) env =
     (case interp_lim d arg env of
        None \<Rightarrow> None
      | Some (Inl e) \<Rightarrow> Some (Inl e)
      | Some (Inr v) \<Rightarrow> interp_lim d body (env @ [Map.empty(p \<mapsto> v)]))"
| "interp_lim (Suc d) (APP PyNone arg) env = Some (Inl TypeError)"
| "interp_lim (Suc d) (APP (VAR n) arg) env = Some (Inr (APP (VAR n) arg))"
| "interp_lim (Suc d) (APP (APP f x) arg) env = Some (Inr (APP (APP f x) arg))"
| "interp_lim (Suc d) PyNone env = Some (Inl TypeError)"

text \<open>A well-formed AST is a tree of VAR, ABS and APP nodes; its depth counts nodes.\<close>

fun well_formed :: "ast \<Rightarrow> bool" where
  "well_formed (VAR n) = True"
| "well_formed (ABS p body) = well_formed body"
| "well_formed (APP f arg) = (well_formed f \<and> well_formed arg)"
| "well_formed PyNone = False"

fun depth :: "ast \<Rightarrow> nat" where
  "depth (VAR n) = 1"
| "depth (ABS p body) = 1 + depth body"
| "depth (APP f arg) = 1 + max (depth f) (depth arg)"
| "depth PyNone = 1"

text \<open>
  The shapes \<^verbatim>\<open>interpret\<close> leaves alone when every binding in scope is a self-binding: a
  variable, an abstraction over such a body, or an application whose function position
  is a variable or an application (whatever stands below it).
\<close>

fun stuck_or_value :: "ast \<Rightarrow> bool" where
  "stuck_or_value (VAR n) = True"
| "stuck_or_value (ABS p body) = stuck_or_value body"
| "stuck_or_value (APP (VAR n) arg) = True"
| "stuck_or_value (APP (APP f x) arg) = True"
| "stuck_or_value (APP (ABS p body) arg) = False"
| "stuck_or_value (APP PyNone arg) = False"
| "stuck_or_value PyNone = False"

definition values_normal :: "env \<Rightarrow> bool" where
  "values_normal env = (\<forall>d \<in> set env. \<forall>v \<in> ran d. stuck_or_value v)"

definition self_bound :: "env \<Rightarrow> bool" where
  "self_bound env = (\<forall>d \<in> set env. \<forall>n v. d n = Some v \<longrightarrow> v = VAR n)"

section \<open>Printer\<close>

text \<open>\<^verbatim>\<open>textify\<close>; \<^verbatim>\<open>term[0]\<close> raises TypeError when the node is \<^verbatim>\<open>None\<close>.\<close>

fun textify :: "ast \<Rightarrow> py_error + pystr" where
  "textify (VAR n) = Inr n"
| "textify (ABS p body) =
     (case textify body of
        Inl e \<Rightarrow> Inl e
      | Inr s \<Rightarrow> Inr (str ''('' @ [bold_lamda] @ p @ str ''.'' @ s @ str '')''))"
| "textify (APP f arg) =
     (case textify f of
        Inl e \<Rightarrow> Inl e
      | Inr s1 \<Rightarrow>
          (case textify arg of
             Inl e \<Rightarrow> Inl e
           | Inr s2 \<Rightarrow> Inr (str ''('' @ s1 @ s2 @ str '')'')))"
| "textify PyNone = Inl TypeError"

section \<open>The pipeline of one line\<close>

text \<open>
  \<^verbatim>\<open>textify(interpret(parse(scan(line)), []))\<close>, the expression \<^verbatim>\<open>repl\<close> prints.
  \<open>None\<close>: it never returns.
\<close>

definition run_line :: "pystr \<Rightarrow> (py_error + pystr) option" where
  "run_line line =
     (case parse (scan line) of
        None \<Rightarrow> None
      | Some (Inl e) \<Rightarrow> Some (Inl e)
      | Some (Inr t) \<Rightarrow>
          Some (case interp t [] of Inl e \<Rightarrow> Inl e | Inr v \<Rightarrow> textify v))"

section \<open>The branches of the parser\<close>

text \<open>
  The equation of \<open>parser\<close> unfolds for ever under the simplifier, so each path through
  \<^verbatim>\<open>term()\<close> and \<^verbatim>\<open>abs()\<close> is derived once, guarded by the tests that select it.
\<close>

lemma term_p_end:
  "\<not> i < length tokens \<Longrightarrow> term_p tokens i = Some (Inr (PyNone, i))"
  unfolding term_p_def by (subst parser.simps) simp

lemma term_p_ID:
  "i < length tokens \<Longrightarrow> fst (tokens ! i) = ID \<Longrightarrow>
   term_p tokens i = Some (Inr (VAR (snd (tokens ! i)), i + 1))"
  unfolding term_p_def by (subst parser.simps) (simp add: var_def)

lemma term_p_LEFT_PAREN_last:
  "i < length tokens \<Longrightarrow> fst (tokens ! i) = LEFT_PAREN \<Longrightarrow> \<not> i + 1 < length tokens \<Longrightarrow>
   term_p tokens i = Some (Inl IndexError)"
  unfolding term_p_def by (subst parser.simps) simp

lemma term_p_LAMBDA:
  "i < length tokens \<Longrightarrow> fst (tokens ! i) = LEFT_PAREN \<Longrightarrow> i + 1 < length tokens \<Longrightarrow>
   fst (tokens ! (i + 1)) = LAMBDA \<Longrightarrow>
   term_p tokens i =
     Option.bind (abs_p tokens (i + 1))
       (\<lambda>r. case r of Inl e \<Rightarrow> Some (Inl e) | Inr (res, j) \<Rightarrow> Some (Inr (res, j + 1)))"
  unfolding term_p_def abs_p_def by (subst parser.simps) simp

lemma term_p_APP:
  "i < length tokens \<Longrightarrow> fst (tokens ! i) = LEFT_PAREN \<Longrightarrow> i + 1 < length tokens \<Longrightarrow>
   fst (tokens ! (i + 1)) \<noteq> LAMBDA \<Longrightarrow>
   term_p tokens i =
     Option.bind (term_p tokens (i + 1))
       (\<lambda>r1. case r1 of
          Inl e \<Rightarrow> Some (Inl e)
        | Inr (res1, j) \<Rightarrow>
            Option.bind (term_p tokens j)
              (\<lambda>r2. case r2 of
                 Inl e \<Rightarrow> Some (Inl e)
               | Inr (res2, k) \<Rightarrow> Some (Inr (APP res1 res2, k + 1))))"
  unfolding term_p_def by (subst parser.simps) simp

lemma abs_p_eq:
  "abs_p tokens i =
     (case var tokens (i + 1) of
        Inl e \<Rightarrow> Some (Inl e)
      | Inr (v, j) \<Rightarrow>
          Option.bind (term_p tokens (j + 1))
            (\<lambda>r. case r of
               Inl e \<Rightarrow> Some (Inl e)
             | Inr (body, k) \<Rightarrow> Some (Inr (ABS v body, k))))"
  unfolding term_p_def abs_p_def by (subst parser.simps) simp

lemmas parser_paths =
  term_p_end term_p_ID term_p_LEFT_PAREN_last term_p_LAMBDA term_p_APP abs_p_eq var_def

text \<open>
  With the cursor on a LAMBDA, DOT or RIGHT_PAREN token, an iteration of the loop of
  \<^verbatim>\<open>term()\<close> changes nothing, so no call that starts there returns: any returning
  call would rest on a shorter one from the same state.
\<close>

lemma parser_stuck:
  assumes "parser tokens f i = Some y"
  shows "\<not> (f = Term \<and> i < length tokens \<and> fst (tokens ! i) \<in> {LAMBDA, DOT, RIGHT_PAREN})"
  by (rule parser.raw_induct
    [where P = "\<lambda>tokens f i y. \<not> (f = Term \<and> i < length tokens \<and>
                  fst (tokens ! i) \<in> {LAMBDA, DOT, RIGHT_PAREN})", OF _ assms]) auto

lemma term_p_loop:
  "i < length tokens \<Longrightarrow> fst (tokens ! i) \<in> {LAMBDA, DOT, RIGHT_PAREN} \<Longrightarrow>
   term_p tokens i = None"
  unfolding term_p_def using parser_stuck [of tokens Term i]
  by (cases "parser tokens Term i") auto

section \<open>The scanner, character by character\<close>

lemma scan_append: "scan (xs @ ys) = scan xs @ scan ys"
  by (induction xs) simp_all

lemmas scan_eval = str_def scan_char_def bold_lamda_def greek_lamda_def

text \<open>
  C5, as amended. The glyph that \<^verbatim>\<open>scan\<close> matches is U+1D6CC, the one written in the
  source: every occurrence of it, and every occurrence of the backslash, becomes one
  LAMBDA token with the empty payload, wherever it stands in the input.
\<close>

theorem scan_lambda_glyphs:
  "scan (pre @ [bold_lamda] @ post) = scan pre @ [(LAMBDA, [])] @ scan post \<and>
   scan (pre @ [of_char (CHR 0x5C)] @ post) = scan pre @ [(LAMBDA, [])] @ scan post"
  by (simp add: scan_append scan_char_def bold_lamda_def)

text \<open>
  C5, as stated, fails: the Greek small letter lamda U+03BB is none of the characters
  \<^verbatim>\<open>scan\<close> knows, and becomes an ID token carrying it.
\<close>

theorem scan_greek_lamda_counterexample:
  "scan [greek_lamda] = [(ID, [greek_lamda])] \<and> scan [greek_lamda] \<noteq> [(LAMBDA, [])]"
  by (simp add: scan_eval)

text \<open>
  C8. The number of tokens \<^verbatim>\<open>scan\<close> returns is the number of characters of the input
  that are not whitespace, where whitespace is what the scanner's contract calls so, the
  space character; a space, wherever it stands, is dropped and yields no token.
\<close>

theorem scan_length:
  "length (scan input) = length (filter (\<lambda>c. c \<noteq> of_char CHR '' '') input) \<and>
   scan (pre @ [of_char CHR '' ''] @ post) = scan pre @ scan post"
proof
  show "length (scan input) = length (filter (\<lambda>c. c \<noteq> of_char CHR '' '') input)"
    by (induction input) (simp_all add: scan_char_def)
  show "scan (pre @ [of_char CHR '' ''] @ post) = scan pre @ scan post"
    by (simp add: scan_append scan_char_def)
qed

text \<open>
  Other blank characters are not whitespace in this sense: a tab and a line feed each
  become an ID token, the line feed that ends every line \<^verbatim>\<open>repl\<close> reads included.
\<close>

lemma scan_tab_newline:
  "scan [9] = [(ID, [9])] \<and> scan [10] = [(ID, [10])]"
  by (simp add: scan_eval)

section \<open>Malformed input\<close>

text \<open>
  C9, as stated, fails: on the tokens of \<^verbatim>\<open>")"\<close> the call of \<^verbatim>\<open>parse\<close> raises neither
  of the errors the code can raise.
\<close>

theorem parse_rparen_counterexample:
  "parse (scan (str '')'')) \<noteq> Some (Inl IndexError) \<and>
   parse (scan (str '')'')) \<noteq> Some (Inl TypeError)"
  by (simp add: parse_def term_p_loop scan_eval)

text \<open>
  C9, as amended. \<^verbatim>\<open>scan(")")\<close> is the single RIGHT_PAREN token; on it \<^verbatim>\<open>term()\<close> finds
  no matching case and never moves the cursor, so \<^verbatim>\<open>parse\<close> does not return: it raises
  nothing and yields no term, and neither does the pipeline of the line.
\<close>

theorem parse_rparen_never_returns:
  "scan (str '')'') = [(RIGHT_PAREN, [])] \<and>
   parse (scan (str '')'')) = None \<and>
   run_line (str '')'') = None"
  by (simp add: run_line_def parse_def term_p_loop scan_eval)

text \<open>
  C10. On the empty token sequence, which is what scanning the empty text gives,
  \<^verbatim>\<open>parse\<close> returns, and what it returns is \<^verbatim>\<open>None\<close>: no term and no error. The failure
  shows one stage later, where \<^verbatim>\<open>interpret\<close> subscripts that \<^verbatim>\<open>None\<close>.
\<close>

theorem parse_empty:
  "scan [] = [] \<and>
   parse [] = Some (Inr PyNone) \<and>
   interp PyNone [] = Inl TypeError \<and>
   run_line [] = Some (Inl TypeError)"
  by (simp add: run_line_def parse_def term_p_end)

section \<open>Lookup\<close>

lemma find_loop_Some: "find_loop ds n = Some r \<Longrightarrow> \<exists>d \<in> set ds. d n = Some r"
  by (induction ds) (auto split: option.splits)

lemma find_loop_None: "find_loop ds n = None \<longleftrightarrow> (\<forall>d \<in> set ds. d n = None)"
  by (induction ds) (auto split: option.splits)

lemma find_env_Some: "find_env env n = Some r \<Longrightarrow> \<exists>d \<in> set env. d n = Some r"
  unfolding find_env_def using find_loop_Some [of "rev env" n r] by simp

lemma find_env_None: "find_env env n = None \<longleftrightarrow> (\<forall>d \<in> set env. d n = None)"
  unfolding find_env_def by (simp add: find_loop_None)

section \<open>The evaluator, case by case\<close>

text \<open>
  C2. An application is reduced exactly when its function position is an ABS node: the
  body is then interpreted with the parameter bound to the interpreted argument, the
  argument being interpreted first, in the caller's environment. When the function
  position is a VAR or an APP node the application is returned as it is. The text
  \<^verbatim>\<open>(xy)\<close> therefore comes back as \<^verbatim>\<open>(xy)\<close>.
\<close>

theorem interp_APP:
  "interp (APP f arg) env =
     (case f of
        ABS p body \<Rightarrow>
          (case interp arg env of
             Inl e \<Rightarrow> Inl e
           | Inr v \<Rightarrow> interp body (env @ [Map.empty(p \<mapsto> v)]))
      | VAR n \<Rightarrow> Inr (APP f arg)
      | APP g x \<Rightarrow> Inr (APP f arg)
      | PyNone \<Rightarrow> Inl TypeError) \<and>
   run_line (str ''(xy)'') = Some (Inr (str ''(xy)''))"
proof
  show "interp (APP f arg) env =
     (case f of
        ABS p body \<Rightarrow>
          (case interp arg env of
             Inl e \<Rightarrow> Inl e
           | Inr v \<Rightarrow> interp body (env @ [Map.empty(p \<mapsto> v)]))
      | VAR n \<Rightarrow> Inr (APP f arg)
      | APP g x \<Rightarrow> Inr (APP f arg)
      | PyNone \<Rightarrow> Inl TypeError)"
    by (cases f) simp_all
  have "parse (scan (str ''(xy)'')) = Some (Inr (APP (VAR (str ''x'')) (VAR (str ''y''))))"
    by (simp add: parse_def parser_paths scan_eval)
  then show "run_line (str ''(xy)'') = Some (Inr (str ''(xy)''))"
    by (simp add: run_line_def str_def)
qed

text \<open>
  C3. An abstraction keeps its parameter, and its body is interpreted in the environment
  extended by a frame that binds the parameter to itself. So \<open>ABS x (ABS x (VAR x))\<close>
  comes back unchanged from the empty environment.
\<close>

theorem interp_ABS:
  "interp (ABS p body) env =
     (case interp body (env @ [Map.empty(p \<mapsto> VAR p)]) of
        Inl e \<Rightarrow> Inl e
      | Inr body' \<Rightarrow> Inr (ABS p body')) \<and>
   interp (ABS x (ABS x (VAR x))) [] = Inr (ABS x (ABS x (VAR x)))"
  by (simp add: find_env_def)

text \<open>
  C4. A variable whose name no frame of the environment binds is returned as it is, and
  nothing is raised. The text \<^verbatim>\<open>x\<close> therefore comes back as \<^verbatim>\<open>x\<close>.
\<close>

theorem interp_free_VAR:
  assumes "\<forall>d \<in> set env. d n = None"
  shows "interp (VAR n) env = Inr (VAR n) \<and>
         run_line (str ''x'') = Some (Inr (str ''x''))"
proof
  from assms have "find_env env n = None"
    by (simp add: find_env_None)
  then show "interp (VAR n) env = Inr (VAR n)"
    by simp
  have "parse (scan (str ''x'')) = Some (Inr (VAR (str ''x'')))"
    by (simp add: parse_def parser_paths scan_eval)
  then show "run_line (str ''x'') = Some (Inr (str ''x''))"
    by (simp add: run_line_def find_env_def)
qed

theorem interp_free_VAR_witness:
  "(Map.empty(str ''y'' \<mapsto> VAR (str ''z''))) (str ''x'') = None \<and>
   interp (VAR (str ''x'')) [Map.empty(str ''y'' \<mapsto> VAR (str ''z''))] = Inr (VAR (str ''x''))"
proof -
  have h: "\<forall>d \<in> set [Map.empty(str ''y'' \<mapsto> VAR (str ''z''))]. d (str ''x'') = None"
    by (simp add: str_def)
  from interp_free_VAR [OF h] h show ?thesis
    by simp
qed

section \<open>The example of the constant function\<close>

text \<open>
  C1, as stated, fails: written with the Greek letter U+03BB, the text has no LAMBDA
  token at all. Both parenthesised groups parse as applications of the variable
  \<open>\<lambda>\<close>, the trailing \<^verbatim>\<open>z)\<close> is never read, and the line comes back as
  \<^verbatim>\<open>((\<lambda>x)(\<lambda>y))\<close>.
\<close>

theorem k_combinator_greek_counterexample:
  "run_line (str ''(('' @ [greek_lamda] @ str ''x.('' @ [greek_lamda] @ str ''y.x))z)'') =
     Some (Inr (str ''(('' @ [greek_lamda] @ str ''x)('' @ [greek_lamda] @ str ''y))'')) \<and>
   run_line (str ''(('' @ [greek_lamda] @ str ''x.('' @ [greek_lamda] @ str ''y.x))z)'') \<noteq>
     Some (Inr (str ''('' @ [greek_lamda] @ str ''y.z)''))"
  by (simp add: run_line_def parse_def parser_paths scan_eval find_env_def)

text \<open>
  C1, as amended. Written with the glyph of the source, U+1D6CC, the line is the
  constant function applied to \<open>z\<close>, and it comes back as the abstraction over \<open>y\<close>
  with body \<open>z\<close>, printed with that same glyph.
\<close>

theorem k_combinator_bold:
  "run_line (str ''(('' @ [bold_lamda] @ str ''x.('' @ [bold_lamda] @ str ''y.x))z)'') =
     Some (Inr (str ''('' @ [bold_lamda] @ str ''y.z)''))"
  by (simp add: run_line_def parse_def parser_paths scan_eval find_env_def)

section \<open>Interpreting a result again\<close>

lemma values_normal_push:
  "values_normal env \<Longrightarrow> stuck_or_value v \<Longrightarrow> values_normal (env @ [Map.empty(p \<mapsto> v)])"
  by (auto simp: values_normal_def)

lemma self_bound_push: "self_bound env \<Longrightarrow> self_bound (env @ [Map.empty(p \<mapsto> VAR p)])"
  by (auto simp: self_bound_def split: if_splits)

text \<open>
  What \<^verbatim>\<open>interpret\<close> returns has one of the shapes above, provided the values already
  in the environment have.
\<close>

lemma interp_normal:
  "values_normal env \<Longrightarrow> interp s env = Inr t \<Longrightarrow> stuck_or_value t"
proof (induction s env arbitrary: t rule: interp.induct)
  case (1 n env)
  show ?case
  proof (cases "find_env env n")
    case None
    with 1 show ?thesis by auto
  next
    case (Some r)
    with 1 have "t = r" by simp
    moreover from Some obtain d where "d \<in> set env" "d n = Some r"
      using find_env_Some by blast
    ultimately show ?thesis using 1(1) by (auto simp: values_normal_def ran_def)
  qed
next
  case (2 p body env)
  then show ?case
    by (auto split: sum.splits dest: values_normal_push [where v = "VAR p" and p = p])
next
  case (3 p body arg env)
  from 3(4) obtain v where v: "interp arg env = Inr v"
    and t: "interp body (env @ [Map.empty(p \<mapsto> v)]) = Inr t"
    by (auto split: sum.splits)
  from 3(1) [OF 3(3) v] have "stuck_or_value v" .
  with 3(3) have "values_normal (env @ [Map.empty(p \<mapsto> v)])"
    by (rule values_normal_push)
  from 3(2) [OF v this t] show ?case .
qed auto

text \<open>Such a term is returned as it is when every binding in scope is a self-binding.\<close>

lemma interp_fixed:
  "self_bound env \<Longrightarrow> stuck_or_value t \<Longrightarrow> interp t env = Inr t"
proof (induction t arbitrary: env rule: stuck_or_value.induct)
  case (1 n)
  show ?case
  proof (cases "find_env env n")
    case None
    then show ?thesis by simp
  next
    case (Some r)
    then obtain d where "d \<in> set env" "d n = Some r"
      using find_env_Some by blast
    with 1(1) have "r = VAR n" by (auto simp: self_bound_def)
    with Some show ?thesis by simp
  qed
next
  case (2 p body)
  from 2(2) have "self_bound (env @ [Map.empty(p \<mapsto> VAR p)])"
    by (rule self_bound_push)
  from 2(1) [OF this] 2(3) show ?case by simp
qed simp_all

text \<open>
  C6. If \<open>t\<close> is what \<^verbatim>\<open>interpret\<close> returned for some AST in the empty environment,
  then interpreting \<open>t\<close> in the empty environment and printing the result gives what
  printing \<open>t\<close> gives; indeed \<open>t\<close> itself is returned.
\<close>

theorem interp_idempotent:
  assumes "interp s [] = Inr t"
  shows "(case interp t [] of Inl e \<Rightarrow> Inl e | Inr v \<Rightarrow> textify v) = textify t \<and>
         interp t [] = Inr t"
proof -
  have "stuck_or_value t"
    using interp_normal [OF _ assms] by (simp add: values_normal_def)
  then have "interp t [] = Inr t"
    using interp_fixed [of "[]" t] by (simp add: self_bound_def)
  then show ?thesis by simp
qed

theorem interp_idempotent_witness:
  "interp (APP (ABS (str ''x'') (ABS (str ''y'') (VAR (str ''x'')))) (VAR (str ''z''))) [] =
     Inr (ABS (str ''y'') (VAR (str ''z''))) \<and>
   (case interp (ABS (str ''y'') (VAR (str ''z''))) [] of
      Inl e \<Rightarrow> Inl e
    | Inr v \<Rightarrow> textify v) = textify (ABS (str ''y'') (VAR (str ''z'')))"
proof -
  have h: "interp (APP (ABS (str ''x'') (ABS (str ''y'') (VAR (str ''x'')))) (VAR (str ''z''))) [] =
     Inr (ABS (str ''y'') (VAR (str ''z'')))"
    by (simp add: find_env_def str_def)
  from interp_idempotent [OF h] h show ?thesis
    by simp
qed

section \<open>Termination and the depth of the recursion\<close>

lemma interp_lim_enough: "depth t \<le> d \<Longrightarrow> interp_lim d t env = Some (interp t env)"
proof (induction d t env rule: interp_lim.induct)
  case (1 t env)
  then show ?case by (cases t) simp_all
qed (auto split: sum.splits)

lemma interp_total: "well_formed t \<Longrightarrow> \<exists>r. interp t env = Inr r"
  by (induction t env rule: interp.induct) (auto split: sum.splits option.splits)

text \<open>
  C7. On a well-formed AST, in any environment, \<^verbatim>\<open>interpret\<close> returns a term and raises
  nothing. It is defined by recursion on the subterms of its argument, with no loop, and
  a call stack of as many frames as the AST is deep is enough for it to produce that
  same result.
\<close>

theorem interp_terminates:
  assumes "well_formed t"
  shows "(\<exists>r. interp t env = Inr r) \<and> interp_lim (depth t) t env = Some (interp t env)"
  using interp_total [OF assms] interp_lim_enough [of t "depth t" env] by simp

theorem interp_terminates_witness:
  "well_formed (APP (ABS (str ''x'') (VAR (str ''x''))) (VAR (str ''y''))) \<and>
   interp (APP (ABS (str ''x'') (VAR (str ''x''))) (VAR (str ''y''))) [] = Inr (VAR (str ''y'')) \<and>
   interp_lim (depth (APP (ABS (str ''x'') (VAR (str ''x''))) (VAR (str ''y''))))
     (APP (ABS (str ''x'') (VAR (str ''x''))) (VAR (str ''y''))) [] = Some (Inr (VAR (str ''y'')))"
proof -
  have h: "well_formed (APP (ABS (str ''x'') (VAR (str ''x''))) (VAR (str ''y'')))"
    by simp
  have v: "interp (APP (ABS (str ''x'') (VAR (str ''x''))) (VAR (str ''y''))) [] = Inr (VAR (str ''y''))"
    by (simp add: find_env_def)
  from interp_terminates [OF h, of "[]"] h v show ?thesis
    by simp
qed

end
